theory Spec2Isabelle
  imports Complex_Main "HOL-Library.Char_ord" "HOL-Library.List_Lexorder" "HOL-Library.Sublist"
begin

section \<open>Sprint reconciliation of Clockify time entries (src/main.py)\<close>

text \<open>
  The theory embeds \<^verbatim>\<open>match\<close>, \<^verbatim>\<open>process_entry\<close> and \<^verbatim>\<open>process_entries\<close> of
  \<^verbatim>\<open>src/main.py\<close>.

  Conventions of the embedding.
  \<^item> A Python \<^verbatim>\<open>str\<close> is a \<open>string\<close> whose characters are the code points 0..255; on that
    range \<^verbatim>\<open>str.strip\<close>, \<^verbatim>\<open>str.lower\<close> and the regular expression class \<^verbatim>\<open>\d\<close> are
    modelled exactly.
  \<^item> Python numbers (\<^verbatim>\<open>int\<close> and \<^verbatim>\<open>float\<close>) are \<open>real\<close>: the rounding of floating point
    division and addition is not modelled.
  \<^item> A raised exception is the left injection of a sum type; every function that can raise
    returns \<open>error + 'a\<close>.
  \<^item> The time entry, the task row and the configuration are records of the fields the three
    functions read. The field \<open>start\<close> of an entry holds the epoch seconds that
    \<^verbatim>\<open>parser.parse(entry['timeInterval']['start']).timestamp()\<close> yields.
\<close>

subsection \<open>Exceptions\<close>

text \<open>
  \<open>AttributeError\<close>: \<^verbatim>\<open>r.group(1)\<close> when \<^verbatim>\<open>re.match\<close> returned \<^verbatim>\<open>None\<close>.
  \<open>ValueError\<close>: \<^verbatim>\<open>int('')\<close>.
  \<open>KeyError\<close>: \<^verbatim>\<open>projects[done['projectId']]\<close> on a missing key.
  \<open>TypeError\<close>: \<^verbatim>\<open>raise 'Unknown task description!'\<close>; raising a \<^verbatim>\<open>str\<close> is itself a
  \<^verbatim>\<open>TypeError\<close> (exceptions must derive from \<^verbatim>\<open>BaseException\<close>).
\<close>

datatype error = AttributeError | ValueError | KeyError | TypeError

subsection \<open>Strings\<close>

definition isspace :: "char \<Rightarrow> bool" where
  "isspace c = (c \<in> {CHR 0x09, CHR 0x0A, CHR 0x0B, CHR 0x0C, CHR 0x0D,
                       CHR 0x1C, CHR 0x1D, CHR 0x1E, CHR 0x1F, CHR 0x20, CHR 0x85, CHR 0xA0})"

definition strip :: "string \<Rightarrow> string" where
  "strip s = rev (dropWhile isspace (rev (dropWhile isspace s)))"

text \<open>
  The characters that \<^verbatim>\<open>str.lower\<close> changes, and their images: the letters A-Z, and the
  capital letters of Latin-1 (code points 0xC0-0xDE without the multiplication sign 0xD7),
  each moved up by 32.
\<close>

definition upper_chars :: string where
  "upper_chars = ''ABCDEFGHIJKLMNOPQRSTUVWXYZ'' @
       [CHR 0xC0, CHR 0xC1, CHR 0xC2, CHR 0xC3, CHR 0xC4, CHR 0xC5, CHR 0xC6, CHR 0xC7,
        CHR 0xC8, CHR 0xC9, CHR 0xCA, CHR 0xCB, CHR 0xCC, CHR 0xCD, CHR 0xCE, CHR 0xCF,
        CHR 0xD0, CHR 0xD1, CHR 0xD2, CHR 0xD3, CHR 0xD4, CHR 0xD5, CHR 0xD6, CHR 0xD8,
        CHR 0xD9, CHR 0xDA, CHR 0xDB, CHR 0xDC, CHR 0xDD, CHR 0xDE]"

definition lower_chars :: string where
  "lower_chars = ''abcdefghijklmnopqrstuvwxyz'' @
       [CHR 0xE0, CHR 0xE1, CHR 0xE2, CHR 0xE3, CHR 0xE4, CHR 0xE5, CHR 0xE6, CHR 0xE7,
        CHR 0xE8, CHR 0xE9, CHR 0xEA, CHR 0xEB, CHR 0xEC, CHR 0xED, CHR 0xEE, CHR 0xEF,
        CHR 0xF0, CHR 0xF1, CHR 0xF2, CHR 0xF3, CHR 0xF4, CHR 0xF5, CHR 0xF6, CHR 0xF8,
        CHR 0xF9, CHR 0xFA, CHR 0xFB, CHR 0xFC, CHR 0xFD, CHR 0xFE]"

definition lower_char :: "char \<Rightarrow> char" where
  "lower_char c = (case map_of (zip upper_chars lower_chars) c of None \<Rightarrow> c | Some l \<Rightarrow> l)"

definition lower :: "string \<Rightarrow> string" where
  "lower s = map lower_char s"

definition startswith :: "string \<Rightarrow> string \<Rightarrow> bool" where
  "startswith s p = (take (length p) s = p)"

text \<open>\<^verbatim>\<open>needle in hay\<close> on strings: \<open>needle\<close> occurs as a contiguous piece of \<open>hay\<close>.\<close>

fun contains :: "string \<Rightarrow> string \<Rightarrow> bool" where
  "contains [] needle = (needle = [])"
| "contains (c # hay) needle = (startswith (c # hay) needle \<or> contains hay needle)"

subsection \<open>\<^verbatim>\<open>match\<close> (lines 14-25)\<close>

definition match :: "string \<Rightarrow> string \<Rightarrow> string \<Rightarrow> error + bool" where
  "match done_project done_task target_task =
     (let target_task = lower (strip target_task)
      in if startswith target_task ''project:''
         then (let target_project = strip (drop 8 target_task);
                   done_project = lower done_project
               in Inr (done_project = target_project))
         else if startswith target_task ''task:''
         then (let target_desc = strip (drop 5 target_task);
                   done_task = lower done_task
               in Inr (contains done_task target_desc))
         else Inl TypeError)"

subsection \<open>The duration pattern \<^verbatim>\<open>PT(\d*H)?(\d*M)?(\d*S)?\<close>\<close>

definition isdigit :: "char \<Rightarrow> bool" where
  "isdigit c = (c \<in> set ''0123456789'')"

text \<open>
  One optional group \<^verbatim>\<open>(\d*X)?\<close> tried at the front of \<open>s\<close>: the text of the group (digits and
  marker) when the digits at the front are followed by the marker, and what is left of \<open>s\<close>.
  The digits are taken greedily; giving some back cannot help, since the character after a
  shorter run is a digit and not the marker.
\<close>

definition re_group :: "char \<Rightarrow> string \<Rightarrow> string option \<times> string" where
  "re_group x s =
     (case dropWhile isdigit s of
        [] \<Rightarrow> (None, s)
      | c # r \<Rightarrow> if c = x then (Some (takeWhile isdigit s @ [x]), r) else (None, s))"

text \<open>
  \<^verbatim>\<open>re.match\<close> matches at the start of the string and accepts any text after the match: the
  three groups of a string that begins with \<^verbatim>\<open>PT\<close>, and \<open>None\<close> for any other string.
\<close>

definition re_match :: "string \<Rightarrow> (string option \<times> string option \<times> string option) option" where
  "re_match s =
     (if startswith s ''PT''
      then (let (g1, s1) = re_group CHR ''H'' (drop 2 s);
                (g2, s2) = re_group CHR ''M'' s1;
                (g3, s3) = re_group CHR ''S'' s2
            in Some (g1, g2, g3))
      else None)"

definition digit_val :: "char \<Rightarrow> nat" where
  "digit_val c = of_char c - 48"

text \<open>\<^verbatim>\<open>int(s)\<close> for a string of decimal digits, the only strings the groups hand to it.\<close>

definition decimal :: "string \<Rightarrow> nat" where
  "decimal s = foldl (\<lambda>a c. 10 * a + digit_val c) 0 s"

definition py_int :: "string \<Rightarrow> error + real" where
  "py_int s =
     (if s = [] \<or> \<not> list_all isdigit s then Inl ValueError
      else Inr (real (decimal s)))"

text \<open>
  \<^verbatim>\<open>if r.group(k): elapsed += int(r.group(k)[:-1]) / unit\<close>. A group that took part in the
  match is a non-empty string, so the test is whether it took part.
\<close>

definition add_group :: "real \<Rightarrow> string option \<Rightarrow> real \<Rightarrow> error + real" where
  "add_group unit g elapsed =
     (case g of
        None \<Rightarrow> Inr elapsed
      | Some txt \<Rightarrow> (case py_int (butlast txt) of
                      Inl err \<Rightarrow> Inl err
                    | Inr n \<Rightarrow> Inr (elapsed + n / unit)))"

subsection \<open>\<^verbatim>\<open>process_entry\<close> (lines 58-73)\<close>

record entry =
  entry_id :: string
  start :: real
  duration :: "string option"
  projectId :: string
  description :: string

record task =
  Description :: string
  Estimated_Hours :: real

text \<open>Lines 63-69: the elapsed hours of a duration string.\<close>

definition elapsed_hours :: "string \<Rightarrow> error + real" where
  "elapsed_hours d =
     (case re_match d of
        None \<Rightarrow> Inl AttributeError
      | Some (g1, g2, g3) \<Rightarrow>
         (case add_group 1 g1 0 of
            Inl err \<Rightarrow> Inl err
          | Inr e1 \<Rightarrow>
             (case add_group 60 g2 e1 of
                Inl err \<Rightarrow> Inl err
              | Inr e2 \<Rightarrow> add_group 3600 g3 e2)))"

definition process_entry :: "entry \<Rightarrow> (string \<rightharpoonup> string) \<Rightarrow> task option \<Rightarrow> error + real" where
  "process_entry dn projects tsk =
     (case duration dn of
        None \<Rightarrow> Inr 0
      | Some d \<Rightarrow>
         (case elapsed_hours d of
            Inl err \<Rightarrow> Inl err
          | Inr elapsed \<Rightarrow>
             (case tsk of
                None \<Rightarrow> Inr elapsed
              | Some t \<Rightarrow>
                 (case projects (projectId dn) of
                    None \<Rightarrow> Inl KeyError
                  | Some done_project \<Rightarrow>
                     (case match done_project (description dn) (Description t) of
                        Inl err \<Rightarrow> Inl err
                      | Inr b \<Rightarrow> Inr (if b then elapsed else 0))))))"

text \<open>
  Duration strings built from their components, for stating what the parser computes: a
  component is absent or a non-empty run of digits, written before its marker.
\<close>

definition component :: "char \<Rightarrow> string option \<Rightarrow> string" where
  "component x g = (case g of None \<Rightarrow> [] | Some ds \<Rightarrow> ds @ [x])"

definition component_ok :: "string option \<Rightarrow> bool" where
  "component_ok g = (case g of None \<Rightarrow> True | Some ds \<Rightarrow> ds \<noteq> [] \<and> list_all isdigit ds)"

definition component_val :: "string option \<Rightarrow> real" where
  "component_val g = (case g of None \<Rightarrow> 0 | Some ds \<Rightarrow> real (decimal ds))"

text \<open>
  Text after the components that the pattern leaves unread: after any digits at its front it
  ends, or goes on with a character that is none of the three markers.
\<close>

definition tail_ok :: "string \<Rightarrow> bool" where
  "tail_ok r =
     (case dropWhile isdigit r of
        [] \<Rightarrow> True
      | c # _ \<Rightarrow> c \<notin> {CHR ''H'', CHR ''M'', CHR ''S''})"

subsection \<open>\<^verbatim>\<open>process_entries\<close> (lines 76-110)\<close>

record config =
  start_of_sprint :: real
  sprint_days :: real
  total_sprint_time :: real

type_synonym result = "real \<times> real \<times> string"

text \<open>
  \<^verbatim>\<open>sort_values('Description', ascending=False)\<close>: pandas reverses the rows, sorts them
  ascending and reverses the outcome; strings compare by code point, a proper prefix first.
  Rows with the same \<^verbatim>\<open>Description\<close> are kept in their given order here, as a stable sort
  leaves them; the default sort of pandas promises no order among such rows, and no theorem
  below depends on it.
\<close>

definition sort_values :: "task list \<Rightarrow> task list" where
  "sort_values tasks = rev (sort_key Description (rev tasks))"

definition end_of_sprint :: "config \<Rightarrow> real" where
  "end_of_sprint cfg = start_of_sprint cfg + sprint_days cfg * 86400"

definition in_window :: "config \<Rightarrow> entry \<Rightarrow> bool" where
  "in_window cfg e = (start_of_sprint cfg \<le> start e \<and> start e < end_of_sprint cfg)"

definition initial_results :: "task list \<Rightarrow> result list" where
  "initial_results tasks = map (\<lambda>d. (0, Estimated_Hours d, Description d)) tasks"

definition add_spent :: "real \<Rightarrow> result \<Rightarrow> result" where
  "add_spent x r = (fst r + x, snd r)"

text \<open>
  The inner loop (lines 100-105) from row \<open>i\<close> on: the updated results and \<^verbatim>\<open>entry_matched\<close>.
  The rows of the sorted table are numbered from 0 and \<^verbatim>\<open>results\<close> has a row for each, so
  \<^verbatim>\<open>results[i]\<close> is always in range.
\<close>

fun task_loop ::
  "entry \<Rightarrow> (string \<rightharpoonup> string) \<Rightarrow> task list \<Rightarrow> nat \<Rightarrow> result list \<Rightarrow> error + (result list \<times> bool)" where
  "task_loop e projects [] i results = Inr (results, False)"
| "task_loop e projects (t # ts) i results =
     (case process_entry e projects (Some t) of
        Inl err \<Rightarrow> Inl err
      | Inr elapsed_time \<Rightarrow>
         (let results = results[i := add_spent elapsed_time (results ! i)]
          in if elapsed_time > 0 then Inr (results, True)
             else task_loop e projects ts (Suc i) results))"

record state =
  results :: "result list"
  processed_ids :: "string list"
  off_schedule_spent :: real

text \<open>The body of the outer loop (lines 96-107) for one entry.\<close>

definition entry_step ::
  "config \<Rightarrow> (string \<rightharpoonup> string) \<Rightarrow> task list \<Rightarrow> entry \<Rightarrow> state \<Rightarrow> error + state" where
  "entry_step cfg projects tasks e st =
     (if in_window cfg e \<and> entry_id e \<notin> set (processed_ids st)
      then (case task_loop e projects tasks 0 (results st) of
              Inl err \<Rightarrow> Inl err
            | Inr (rs, entry_matched) \<Rightarrow>
               (let st = st\<lparr>results := rs, processed_ids := processed_ids st @ [entry_id e]\<rparr>
                in if \<not> entry_matched
                   then (case process_entry e projects None of
                           Inl err \<Rightarrow> Inl err
                         | Inr x \<Rightarrow> Inr (st\<lparr>off_schedule_spent := off_schedule_spent st + x\<rparr>))
                   else Inr st))
      else Inr st)"

fun entries_loop ::
  "config \<Rightarrow> (string \<rightharpoonup> string) \<Rightarrow> task list \<Rightarrow> entry list \<Rightarrow> state \<Rightarrow> error + state" where
  "entries_loop cfg projects tasks [] st = Inr st"
| "entries_loop cfg projects tasks (e # es) st =
     (case entry_step cfg projects tasks e st of
        Inl err \<Rightarrow> Inl err
      | Inr st' \<Rightarrow> entries_loop cfg projects tasks es st')"

definition process_entries ::
  "config \<Rightarrow> task list \<Rightarrow> entry list \<Rightarrow> (string \<rightharpoonup> string) \<Rightarrow> error + (result list \<times> real)" where
  "process_entries cfg task_rows entries projects =
     (let tasks = sort_values task_rows;
          total_scheduled_hours = sum_list (map Estimated_Hours tasks)
      in case entries_loop cfg projects tasks entries
                \<lparr>results = initial_results tasks, processed_ids = [], off_schedule_spent = 0\<rparr> of
           Inl err \<Rightarrow> Inl err
         | Inr st \<Rightarrow>
            Inr (results st @
                   [(off_schedule_spent st, total_sprint_time cfg - total_scheduled_hours,
                     ''Off-scheduled'')],
                 total_scheduled_hours))"



section \<open>The duration parser\<close>

lemma marker_not_digit: "\<not> isdigit CHR ''H''" "\<not> isdigit CHR ''M''" "\<not> isdigit CHR ''S''"
  by (simp_all add: isdigit_def)

lemma dropWhile_digits: "list_all isdigit ds \<Longrightarrow> dropWhile isdigit (ds @ r) = dropWhile isdigit r"
  by (simp add: list_all_iff)

lemma takeWhile_digits:
  "list_all isdigit ds \<Longrightarrow> \<not> isdigit c \<Longrightarrow> takeWhile isdigit (ds @ c # r) = ds"
  by (induction ds) simp_all

lemma re_group_hit:
  "list_all isdigit ds \<Longrightarrow> \<not> isdigit x \<Longrightarrow> re_group x (ds @ x # r) = (Some (ds @ [x]), r)"
  by (simp add: re_group_def dropWhile_digits takeWhile_digits)

lemma re_group_miss:
  "(case dropWhile isdigit s of [] \<Rightarrow> True | c # r \<Rightarrow> c \<noteq> x) \<Longrightarrow> re_group x s = (None, s)"
  by (simp add: re_group_def split: list.splits del: dropWhile_eq_Nil_conv)

lemma py_int_digits: "ds \<noteq> [] \<Longrightarrow> list_all isdigit ds \<Longrightarrow> py_int ds = Inr (real (decimal ds))"
  by (simp add: py_int_def)

lemma add_group_component:
  "component_ok g \<Longrightarrow>
   add_group u (map_option (\<lambda>ds. ds @ [x]) g) a = Inr (a + component_val g / u)"
  by (cases g) (simp_all add: add_group_def component_ok_def component_val_def py_int_digits)

lemma re_group_component:
  assumes "component_ok g" "\<not> isdigit x"
    and "case dropWhile isdigit r of [] \<Rightarrow> True | c # _ \<Rightarrow> c \<noteq> x"
  shows "re_group x (component x g @ r) = (map_option (\<lambda>ds. ds @ [x]) g, r)"
proof (cases g)
  case None
  with assms(3) show ?thesis by (simp add: component_def re_group_miss)
next
  case (Some ds)
  with assms(1) have "list_all isdigit ds" by (simp add: component_ok_def)
  with Some assms(2) show ?thesis by (simp add: component_def re_group_hit)
qed

lemma dropWhile_component:
  "component_ok g \<Longrightarrow> \<not> isdigit x \<Longrightarrow>
   dropWhile isdigit (component x g @ r) =
     (case g of None \<Rightarrow> dropWhile isdigit r | Some ds \<Rightarrow> x # r)"
  by (cases g) (simp_all add: component_def component_ok_def dropWhile_digits)

text \<open>
  The hours of a string made of well-formed components, whatever unread text follows them.
\<close>

lemma elapsed_hours_components:
  assumes "component_ok h" "component_ok m" "component_ok s" "tail_ok r"
  shows "elapsed_hours
           (''PT'' @ component CHR ''H'' h @ component CHR ''M'' m @ component CHR ''S'' s @ r)
         = Inr (component_val h + component_val m / 60 + component_val s / 3600)"
proof -
  let ?S = "component CHR ''S'' s @ r"
  let ?M = "component CHR ''M'' m @ ?S"
  have t3: "case dropWhile isdigit r of [] \<Rightarrow> True | c # _ \<Rightarrow> c \<noteq> CHR ''S''"
    using assms(4)
    by (auto simp: tail_ok_def simp del: dropWhile_eq_Nil_conv split: list.splits)
  have t2: "case dropWhile isdigit ?S of [] \<Rightarrow> True | c # _ \<Rightarrow> c \<noteq> CHR ''M''"
    using assms(3,4)
    by (auto simp: dropWhile_component marker_not_digit tail_ok_def
             simp del: dropWhile_eq_Nil_conv split: list.splits option.splits)
  have t1: "case dropWhile isdigit ?M of [] \<Rightarrow> True | c # _ \<Rightarrow> c \<noteq> CHR ''H''"
    using assms(2,3,4)
    by (auto simp: dropWhile_component marker_not_digit tail_ok_def
             simp del: dropWhile_eq_Nil_conv split: list.splits option.splits)
  have g1: "re_group CHR ''H'' (component CHR ''H'' h @ ?M) = (map_option (\<lambda>ds. ds @ ''H'') h, ?M)"
    using re_group_component[OF assms(1) marker_not_digit(1) t1] .
  have g2: "re_group CHR ''M'' ?M = (map_option (\<lambda>ds. ds @ ''M'') m, ?S)"
    using re_group_component[OF assms(2) marker_not_digit(2) t2] .
  have g3: "re_group CHR ''S'' ?S = (map_option (\<lambda>ds. ds @ ''S'') s, r)"
    using re_group_component[OF assms(3) marker_not_digit(3) t3] .
  have "re_match (''PT'' @ component CHR ''H'' h @ ?M)
      = Some (map_option (\<lambda>ds. ds @ ''H'') h, map_option (\<lambda>ds. ds @ ''M'') m,
              map_option (\<lambda>ds. ds @ ''S'') s)"
    by (simp add: re_match_def startswith_def g1 g2 g3)
  then show ?thesis
    by (simp add: elapsed_hours_def add_group_component assms)
qed

lemmas duration_eval =
  process_entry_def elapsed_hours_def re_match_def re_group_def startswith_def isdigit_def
  add_group_def py_int_def decimal_def digit_val_def

text \<open>
  C3. With no task given, \<^verbatim>\<open>process_entry\<close> is the duration parser. A duration of optional
  hours, minutes and seconds components yields hours + minutes/60 + seconds/3600; in
  particular \<^verbatim>\<open>PT1H30M\<close> yields 1.5 and \<^verbatim>\<open>PT45S\<close> yields 0.0125. A null duration yields
  zero, for any task, and \<^verbatim>\<open>PT\<close> alone yields zero.
\<close>

theorem duration_parser_hours:
  "(component_ok h \<longrightarrow> component_ok m \<longrightarrow> component_ok s \<longrightarrow>
      process_entry
        (dn\<lparr>duration := Some (''PT'' @ component CHR ''H'' h @ component CHR ''M'' m
                                  @ component CHR ''S'' s)\<rparr>) projects None
      = Inr (component_val h + component_val m / 60 + component_val s / 3600))
   \<and> process_entry (dn\<lparr>duration := Some ''PT1H30M''\<rparr>) projects None = Inr 1.5
   \<and> process_entry (dn\<lparr>duration := Some ''PT45S''\<rparr>) projects None = Inr 0.0125
   \<and> process_entry (dn\<lparr>duration := None\<rparr>) projects tsk = Inr 0
   \<and> process_entry (dn\<lparr>duration := Some ''PT''\<rparr>) projects None = Inr 0"
proof -
  have general: "process_entry
        (dn\<lparr>duration := Some (''PT'' @ component CHR ''H'' h @ component CHR ''M'' m
                                  @ component CHR ''S'' s)\<rparr>) projects None
      = Inr (component_val h + component_val m / 60 + component_val s / 3600)"
    if "component_ok h" "component_ok m" "component_ok s"
    using elapsed_hours_components[OF that, of "[]"]
    by (simp add: process_entry_def tail_ok_def)
  have a: "process_entry (dn\<lparr>duration := Some ''PT1H30M''\<rparr>) projects None = Inr 1.5"
    by (simp add: duration_eval)
  have b: "process_entry (dn\<lparr>duration := Some ''PT45S''\<rparr>) projects None = Inr 0.0125"
    by (simp add: duration_eval)
  have c: "process_entry (dn\<lparr>duration := None\<rparr>) projects tsk = Inr 0"
    by (simp add: process_entry_def)
  have d: "process_entry (dn\<lparr>duration := Some ''PT''\<rparr>) projects None = Inr 0"
    by (simp add: duration_eval)
  from general a b c d show ?thesis by blast
qed

theorem duration_parser_hours_witness:
  "component_ok (Some ''2'') \<and> component_ok (Some ''15'') \<and> component_ok None
   \<and> process_entry
         \<lparr>entry_id = ''a'', start = 0, duration = Some ''PT2H15M'', projectId = ''p'',
          description = ''Standup''\<rparr> Map.empty None = Inr 2.25"
  using duration_parser_hours[where h = "Some ''2''" and m = "Some ''15''" and s = None
      and dn = "\<lparr>entry_id = ''a'', start = 0, duration = None, projectId = ''p'',
                 description = ''Standup''\<rparr>" and projects = Map.empty]
  by (simp add: component_ok_def component_def component_val_def decimal_def digit_val_def
        isdigit_def)

section \<open>Malformed durations\<close>









section \<open>Rules of unknown kind\<close>

lemma match_unknown:
  "\<not> startswith (lower (strip rule)) ''project:'' \<Longrightarrow> \<not> startswith (lower (strip rule)) ''task:''
   \<Longrightarrow> match p d rule = Inl TypeError"
  by (simp add: match_def Let_def)

lemmas string_eval =
  match_def strip_def lower_def lower_char_def upper_chars_def lower_chars_def isspace_def
  startswith_def

text \<open>
  C5. A rule whose stripped, lower-cased text starts with neither \<^verbatim>\<open>project:\<close> nor
  \<^verbatim>\<open>task:\<close> makes \<^verbatim>\<open>match\<close> raise for every entry, never return a boolean. Nothing on the way
  up catches it: \<^verbatim>\<open>process_entry\<close> raises it once the duration is parsed and the project
  found, and \<^verbatim>\<open>process_entries\<close> raises it for an entry in the window.
\<close>

theorem unknown_rule_raises:
  assumes "\<not> startswith (lower (strip rule)) ''project:''"
      and "\<not> startswith (lower (strip rule)) ''task:''"
  shows "match done_project done_task rule = Inl TypeError
     \<and> (duration dn = Some d \<longrightarrow> elapsed_hours d = Inr x \<longrightarrow> projects (projectId dn) = Some name \<longrightarrow>
          process_entry dn projects (Some \<lparr>Description = rule, Estimated_Hours = est\<rparr>) = Inl TypeError
        \<and> (in_window cfg dn \<longrightarrow>
             process_entries cfg [\<lparr>Description = rule, Estimated_Hours = est\<rparr>] (dn # es) projects
               = Inl TypeError))"
  using assms
  by (simp add: match_unknown process_entry_def process_entries_def sort_values_def
        entry_step_def initial_results_def)

theorem unknown_rule_raises_witness:
  "\<not> startswith (lower (strip ''Design'')) ''project:''
   \<and> \<not> startswith (lower (strip ''Design'')) ''task:''
   \<and> elapsed_hours ''PT2H'' = Inr 2
   \<and> in_window \<lparr>start_of_sprint = 1000, sprint_days = 2, total_sprint_time = 40\<rparr>
         \<lparr>entry_id = ''a'', start = 1000, duration = Some ''PT2H'', projectId = ''p'',
          description = ''Design review''\<rparr>
   \<and> match ''Alpha'' ''Design review'' ''Design'' = Inl TypeError
   \<and> process_entry
         \<lparr>entry_id = ''a'', start = 1000, duration = Some ''PT2H'', projectId = ''p'',
          description = ''Design review''\<rparr> [''p'' \<mapsto> ''Alpha'']
         (Some \<lparr>Description = ''Design'', Estimated_Hours = 5\<rparr>) = Inl TypeError
   \<and> process_entries \<lparr>start_of_sprint = 1000, sprint_days = 2, total_sprint_time = 40\<rparr>
         [\<lparr>Description = ''Design'', Estimated_Hours = 5\<rparr>]
         [\<lparr>entry_id = ''a'', start = 1000, duration = Some ''PT2H'', projectId = ''p'',
           description = ''Design review''\<rparr>] [''p'' \<mapsto> ''Alpha''] = Inl TypeError"
proof -
  have h1: "\<not> startswith (lower (strip ''Design'')) ''project:''"
    by (simp add: string_eval)
  have h2: "\<not> startswith (lower (strip ''Design'')) ''task:''"
    by (simp add: string_eval)
  have h3: "elapsed_hours ''PT2H'' = Inr 2"
    by (simp add: duration_eval)
  have h4: "in_window \<lparr>start_of_sprint = 1000, sprint_days = 2, total_sprint_time = 40\<rparr>
         \<lparr>entry_id = ''a'', start = 1000, duration = Some ''PT2H'', projectId = ''p'',
          description = ''Design review''\<rparr>"
    by (simp add: in_window_def end_of_sprint_def)
  show ?thesis
    using h3 h4 unknown_rule_raises[OF h1 h2, where done_project = "''Alpha''"
        and done_task = "''Design review''" and d = "''PT2H''" and x = 2 and name = "''Alpha''"
        and projects = "[''p'' \<mapsto> ''Alpha'']" and est = 5 and es = "[]"
        and cfg = "\<lparr>start_of_sprint = 1000, sprint_days = 2, total_sprint_time = 40\<rparr>"
        and dn = "\<lparr>entry_id = ''a'', start = 1000, duration = Some ''PT2H'', projectId = ''p'',
          description = ''Design review''\<rparr>"]
    by (simp add: h1 h2)
qed

section \<open>The sprint window\<close>

lemma entries_loop_append:
  "entries_loop cfg ps ts (xs @ ys) st =
     (case entries_loop cfg ps ts xs st of Inl err \<Rightarrow> Inl err
      | Inr st' \<Rightarrow> entries_loop cfg ps ts ys st')"
  by (induction xs arbitrary: st) (simp_all split: sum.splits)

lemma entry_step_outside: "\<not> in_window cfg e \<Longrightarrow> entry_step cfg ps ts e st = Inr st"
  by (simp add: entry_step_def)




section \<open>Entries of unknown projects\<close>

lemma add_group_error: "add_group u g a = Inl err \<Longrightarrow> err = ValueError"
  by (auto simp: add_group_def py_int_def split: option.splits sum.splits if_splits)

lemma elapsed_hours_error:
  "elapsed_hours d = Inl err \<Longrightarrow> err = AttributeError \<or> err = ValueError"
  by (auto simp: elapsed_hours_def split: option.splits sum.splits dest: add_group_error)

lemma process_entry_no_project:
  "duration e = Some d \<Longrightarrow> elapsed_hours d = Inr x \<Longrightarrow> projects (projectId e) = None \<Longrightarrow>
   process_entry e projects (Some t) = Inl KeyError"
  by (simp add: process_entry_def)

lemma process_entry_no_project_error:
  "duration e = Some d \<Longrightarrow> projects (projectId e) = None \<Longrightarrow>
   \<exists>err. process_entry e projects (Some t) = Inl err"
  by (cases "elapsed_hours d") (simp_all add: process_entry_def)

text \<open>
  C8, as the code has it. For an entry with a duration whose project is not in the lookup,
  \<^verbatim>\<open>process_entry\<close> against a task raises and never returns a value, and so does the loop
  body for such an entry in the window when there is a task: the entry is not counted as
  off-schedule time. (An entry without a duration returns zero before the lookup.)
\<close>

theorem unresolved_project_raises:
  assumes "projects (projectId e) = None" and "duration e = Some d"
  shows "(\<exists>err. process_entry e projects (Some t) = Inl err)
     \<and> (in_window cfg e \<longrightarrow> entry_id e \<notin> set (processed_ids st) \<longrightarrow>
          (\<exists>err. entry_step cfg projects (t # ts) e st = Inl err))"
  using process_entry_no_project_error[of e d projects t] assms
  by (auto simp: entry_step_def)

theorem unresolved_project_raises_witness:
  "[''p'' \<mapsto> ''Alpha''] ''q'' = None
   \<and> in_window \<lparr>start_of_sprint = 1000, sprint_days = 2, total_sprint_time = 40\<rparr>
        \<lparr>entry_id = ''a'', start = 1000, duration = Some ''PT2H'', projectId = ''q'',
         description = ''Design review''\<rparr>
   \<and> (\<exists>err. process_entry
         \<lparr>entry_id = ''a'', start = 1000, duration = Some ''PT2H'', projectId = ''q'',
          description = ''Design review''\<rparr> [''p'' \<mapsto> ''Alpha'']
         (Some \<lparr>Description = ''project:alpha'', Estimated_Hours = 5\<rparr>) = Inl err)
   \<and> (\<exists>err. entry_step \<lparr>start_of_sprint = 1000, sprint_days = 2, total_sprint_time = 40\<rparr>
         [''p'' \<mapsto> ''Alpha''] [\<lparr>Description = ''project:alpha'', Estimated_Hours = 5\<rparr>]
         \<lparr>entry_id = ''a'', start = 1000, duration = Some ''PT2H'', projectId = ''q'',
          description = ''Design review''\<rparr>
         \<lparr>results = [(0, 5, ''project:alpha'')], processed_ids = [], off_schedule_spent = 0\<rparr>
        = Inl err)"
proof -
  have h: "in_window \<lparr>start_of_sprint = 1000, sprint_days = 2, total_sprint_time = 40\<rparr>
        \<lparr>entry_id = ''a'', start = 1000, duration = Some ''PT2H'', projectId = ''q'',
         description = ''Design review''\<rparr>"
    by (simp add: in_window_def end_of_sprint_def)
  show ?thesis
    using h unresolved_project_raises[where projects = "[''p'' \<mapsto> ''Alpha'']" and d = "''PT2H''"
      and e = "\<lparr>entry_id = ''a'', start = 1000, duration = Some ''PT2H'', projectId = ''q'',
         description = ''Design review''\<rparr>"
      and t = "\<lparr>Description = ''project:alpha'', Estimated_Hours = 5\<rparr>" and ts = "[]"
      and cfg = "\<lparr>start_of_sprint = 1000, sprint_days = 2, total_sprint_time = 40\<rparr>"
      and st = "\<lparr>results = [(0, 5, ''project:alpha'')], processed_ids = [], off_schedule_spent = 0\<rparr>"]
    by simp
qed

text \<open>
  A running entry (no duration) of an unknown project, against a project rule: no error. The
  run counts it as unmatched, with zero hours.
\<close>

theorem unresolved_project_counterexample:
  "process_entry
     \<lparr>entry_id = ''a'', start = 1000, duration = None, projectId = ''q'',
      description = ''Design review''\<rparr> [''p'' \<mapsto> ''Alpha'']
     (Some \<lparr>Description = ''project:alpha'', Estimated_Hours = 5\<rparr>) = Inr 0
   \<and> process_entries \<lparr>start_of_sprint = 1000, sprint_days = 2, total_sprint_time = 40\<rparr>
        [\<lparr>Description = ''project:alpha'', Estimated_Hours = 5\<rparr>]
        [\<lparr>entry_id = ''a'', start = 1000, duration = None, projectId = ''q'',
          description = ''Design review''\<rparr>] [''p'' \<mapsto> ''Alpha'']
      = Inr ([(0, 5, ''project:alpha''), (0, 35, ''Off-scheduled'')], 5)"
  by (simp add: process_entry_def process_entries_def sort_values_def initial_results_def
        entry_step_def in_window_def end_of_sprint_def add_spent_def)

text \<open>
  C10, as the code has it. Once the duration is parsed, the project is looked up before
  \<^verbatim>\<open>match\<close> reads the rule: an entry of an unknown project raises \<^verbatim>\<open>KeyError\<close> against every
  task, whatever its rule. Two paths do not reach the lookup: the call without a task never
  raises \<^verbatim>\<open>KeyError\<close>, and an entry without a duration returns zero, with or without a task.
\<close>

theorem lookup_before_rule:
  "(duration e = Some d \<longrightarrow> elapsed_hours d = Inr x \<longrightarrow> projects (projectId e) = None \<longrightarrow>
      process_entry e projects (Some t) = Inl KeyError)
   \<and> process_entry e projects None \<noteq> Inl KeyError
   \<and> (duration e = None \<longrightarrow> process_entry e projects tsk = Inr 0)"
proof -
  have "process_entry e projects None \<noteq> Inl KeyError"
    by (auto simp: process_entry_def split: option.splits sum.splits dest: elapsed_hours_error)
  then show ?thesis
    by (simp add: process_entry_no_project) (simp add: process_entry_def)
qed

theorem lookup_before_rule_witness:
  "elapsed_hours ''PT2H'' = Inr 2 \<and> [''p'' \<mapsto> ''Alpha''] ''q'' = None
   \<and> process_entry
        \<lparr>entry_id = ''a'', start = 1000, duration = Some ''PT2H'', projectId = ''q'',
         description = ''Design review''\<rparr> [''p'' \<mapsto> ''Alpha'']
        (Some \<lparr>Description = ''task:design'', Estimated_Hours = 5\<rparr>) = Inl KeyError
   \<and> process_entry
        \<lparr>entry_id = ''b'', start = 1000, duration = None, projectId = ''q'',
         description = ''Design review''\<rparr> [''p'' \<mapsto> ''Alpha''] None = Inr 0"
proof -
  have h: "elapsed_hours ''PT2H'' = Inr 2" by (simp add: duration_eval)
  show ?thesis
    using h lookup_before_rule[where d = "''PT2H''" and x = 2 and projects = "[''p'' \<mapsto> ''Alpha'']"
      and e = "\<lparr>entry_id = ''a'', start = 1000, duration = Some ''PT2H'', projectId = ''q'',
         description = ''Design review''\<rparr>"
      and t = "\<lparr>Description = ''task:design'', Estimated_Hours = 5\<rparr>"]
      lookup_before_rule[where projects = "[''p'' \<mapsto> ''Alpha'']" and tsk = None
      and e = "\<lparr>entry_id = ''b'', start = 1000, duration = None, projectId = ''q'',
         description = ''Design review''\<rparr>"]
    by simp
qed

text \<open>
  A running entry of an unknown project, against a task rule: zero, and no error.
\<close>

theorem lookup_before_rule_counterexample:
  "process_entry
     \<lparr>entry_id = ''b'', start = 1000, duration = None, projectId = ''q'',
      description = ''Design review''\<rparr> [''p'' \<mapsto> ''Alpha'']
     (Some \<lparr>Description = ''task:design'', Estimated_Hours = 5\<rparr>) = Inr 0
   \<and> entry_step \<lparr>start_of_sprint = 1000, sprint_days = 2, total_sprint_time = 40\<rparr>
        [''p'' \<mapsto> ''Alpha''] [\<lparr>Description = ''task:design'', Estimated_Hours = 5\<rparr>]
        \<lparr>entry_id = ''b'', start = 1000, duration = None, projectId = ''q'',
         description = ''Design review''\<rparr>
        \<lparr>results = [(0, 5, ''task:design'')], processed_ids = [], off_schedule_spent = 0\<rparr>
      = Inr \<lparr>results = [(0, 5, ''task:design'')], processed_ids = [''b''],
             off_schedule_spent = 0\<rparr>"
  by (simp add: process_entry_def entry_step_def in_window_def end_of_sprint_def add_spent_def)

section \<open>A sprint of two days\<close>

lemmas engine_eval =
  process_entries_def sort_values_def initial_results_def entry_step_def in_window_def
  end_of_sprint_def add_spent_def

text \<open>
  C2, as the code has it. Sprint window from 1000 for two days, one task with the rule
  \<^verbatim>\<open>task:design\<close> estimated at 5 hours, an entry of 2 hours described "Design review" and an
  entry of 1 hour described "Standup" in the window, an entry of 10 hours at the end of the
  window. The outcome is 2 hours on the task, 1 hour off schedule, and the third entry in no
  bucket. The label of a row is the text of its \<^verbatim>\<open>Description\<close> cell, prefix included: the
  same text is the rule.
\<close>

theorem sprint_scenario:
  "process_entries \<lparr>start_of_sprint = 1000, sprint_days = 2, total_sprint_time = B\<rparr>
     [\<lparr>Description = ''task:design'', Estimated_Hours = 5\<rparr>]
     [\<lparr>entry_id = ''a'', start = 1000, duration = Some ''PT2H'', projectId = ''p'',
       description = ''Design review''\<rparr>,
      \<lparr>entry_id = ''b'', start = 5000, duration = Some ''PT1H'', projectId = ''p'',
       description = ''Standup''\<rparr>,
      \<lparr>entry_id = ''c'', start = 173800, duration = Some ''PT10H'', projectId = ''p'',
       description = ''Design review''\<rparr>]
     [''p'' \<mapsto> ''Alpha'']
   = Inr ([(2, 5, ''task:design''), (1, B - 5, ''Off-scheduled'')], 5)"
  by (simp add: engine_eval duration_eval string_eval)

theorem sprint_scenario_witness:
  "process_entries \<lparr>start_of_sprint = 1000, sprint_days = 2, total_sprint_time = 40\<rparr>
     [\<lparr>Description = ''task:design'', Estimated_Hours = 5\<rparr>]
     [\<lparr>entry_id = ''a'', start = 1000, duration = Some ''PT2H'', projectId = ''p'',
       description = ''Design review''\<rparr>,
      \<lparr>entry_id = ''b'', start = 5000, duration = Some ''PT1H'', projectId = ''p'',
       description = ''Standup''\<rparr>,
      \<lparr>entry_id = ''c'', start = 173800, duration = Some ''PT10H'', projectId = ''p'',
       description = ''Design review''\<rparr>]
     [''p'' \<mapsto> ''Alpha'']
   = Inr ([(2, 5, ''task:design''), (1, 35, ''Off-scheduled'')], 5)"
  using sprint_scenario[of 40] by simp

text \<open>
  The outcome is not the one with the label \<^verbatim>\<open>design\<close>; and a row whose \<^verbatim>\<open>Description\<close> is
  \<^verbatim>\<open>design\<close> is a rule of unknown kind, on which the run raises.
\<close>

theorem sprint_scenario_counterexample:
  "process_entries \<lparr>start_of_sprint = 1000, sprint_days = 2, total_sprint_time = 40\<rparr>
     [\<lparr>Description = ''task:design'', Estimated_Hours = 5\<rparr>]
     [\<lparr>entry_id = ''a'', start = 1000, duration = Some ''PT2H'', projectId = ''p'',
       description = ''Design review''\<rparr>,
      \<lparr>entry_id = ''b'', start = 5000, duration = Some ''PT1H'', projectId = ''p'',
       description = ''Standup''\<rparr>,
      \<lparr>entry_id = ''c'', start = 173800, duration = Some ''PT10H'', projectId = ''p'',
       description = ''Design review''\<rparr>]
     [''p'' \<mapsto> ''Alpha'']
   \<noteq> Inr ([(2, 5, ''design''), (1, 40 - 5, ''Off-scheduled'')], 5)
   \<and> process_entries \<lparr>start_of_sprint = 1000, sprint_days = 2, total_sprint_time = 40\<rparr>
     [\<lparr>Description = ''design'', Estimated_Hours = 5\<rparr>]
     [\<lparr>entry_id = ''a'', start = 1000, duration = Some ''PT2H'', projectId = ''p'',
       description = ''Design review''\<rparr>,
      \<lparr>entry_id = ''b'', start = 5000, duration = Some ''PT1H'', projectId = ''p'',
       description = ''Standup''\<rparr>,
      \<lparr>entry_id = ''c'', start = 173800, duration = Some ''PT10H'', projectId = ''p'',
       description = ''Design review''\<rparr>]
     [''p'' \<mapsto> ''Alpha'']
   = Inl TypeError"
  by (simp add: engine_eval duration_eval string_eval)

section \<open>First match wins\<close>











section \<open>Entries returned more than once\<close>

lemma entry_step_seen:
  "entry_id e \<in> set (processed_ids st) \<Longrightarrow> entry_step cfg ps ts e st = Inr st"
  by (simp add: entry_step_def)

lemma entry_step_ids:
  assumes "entry_step cfg ps ts e st = Inr st'"
  shows "set (processed_ids st) \<subseteq> set (processed_ids st')"
    and "in_window cfg e \<Longrightarrow> entry_id e \<in> set (processed_ids st')"
  using assms
  by (auto simp: entry_step_def Let_def split: if_splits sum.splits prod.splits)

lemma entries_loop_ids:
  "entries_loop cfg ps ts es st = Inr st' \<Longrightarrow> set (processed_ids st) \<subseteq> set (processed_ids st')"
proof (induction es arbitrary: st)
  case Nil
  then show ?case by simp
next
  case (Cons e es)
  then obtain st1 where s1: "entry_step cfg ps ts e st = Inr st1"
    and r: "entries_loop cfg ps ts es st1 = Inr st'"
    by (auto split: sum.splits)
  from entry_step_ids(1)[OF s1] Cons.IH[OF r] show ?case by blast
qed

lemma entries_loop_duplicate:
  assumes "entry_id e' = entry_id e" and "in_window cfg e' \<longrightarrow> in_window cfg e"
  shows "entries_loop cfg ps ts (e # ys @ e' # zs) st = entries_loop cfg ps ts (e # ys @ zs) st"
proof (cases "entry_step cfg ps ts e st")
  case (Inl err)
  then show ?thesis by simp
next
  case (Inr st1)
  show ?thesis
  proof (cases "entries_loop cfg ps ts ys st1")
    case (Inl err)
    with Inr show ?thesis by (simp add: entries_loop_append)
  next
    case st2: (Inr st2)
    have "entry_step cfg ps ts e' st2 = Inr st2"
    proof (cases "in_window cfg e'")
      case False
      then show ?thesis by (rule entry_step_outside)
    next
      case True
      with assms(2) have "in_window cfg e" by simp
      with entry_step_ids(2)[OF Inr] have "entry_id e \<in> set (processed_ids st1)" by simp
      with entries_loop_ids[OF st2] assms(1) have "entry_id e' \<in> set (processed_ids st2)"
        by auto
      then show ?thesis by (rule entry_step_seen)
    qed
    with Inr st2 show ?thesis by (simp add: entries_loop_append)
  qed
qed

text \<open>
  C6. An entry sequence in which an identifier occurs a second time, the second occurrence
  being in the window only if the first is (as when the feed returns the same entry again):
  the outcome of the run, error or results, is the one of the sequence without the second
  occurrence. The time of the entry is counted once, where the first occurrence put it.
\<close>

theorem duplicate_entry_once:
  assumes "entry_id e' = entry_id e" and "in_window cfg e' \<longrightarrow> in_window cfg e"
  shows "process_entries cfg rows (xs @ e # ys @ e' # zs) projects
       = process_entries cfg rows (xs @ e # ys @ zs) projects"
proof -
  have "entries_loop cfg projects ts (xs @ e # ys @ e' # zs) st
      = entries_loop cfg projects ts (xs @ e # ys @ zs) st" for ts st
    using entries_loop_append[of cfg projects ts xs] entries_loop_duplicate[OF assms]
    by (simp split: sum.splits)
  then show ?thesis by (simp add: process_entries_def)
qed

theorem duplicate_entry_once_witness:
  "in_window \<lparr>start_of_sprint = 1000, sprint_days = 2, total_sprint_time = 40\<rparr>
       \<lparr>entry_id = ''a'', start = 1000, duration = Some ''PT2H'', projectId = ''p'',
        description = ''Design review''\<rparr>
   \<and> process_entries \<lparr>start_of_sprint = 1000, sprint_days = 2, total_sprint_time = 40\<rparr>
       [\<lparr>Description = ''task:design'', Estimated_Hours = 5\<rparr>]
       [\<lparr>entry_id = ''a'', start = 1000, duration = Some ''PT2H'', projectId = ''p'',
        description = ''Design review''\<rparr>,
        \<lparr>entry_id = ''b'', start = 5000, duration = Some ''PT1H'', projectId = ''p'',
        description = ''Standup''\<rparr>,
        \<lparr>entry_id = ''a'', start = 1000, duration = Some ''PT2H'', projectId = ''p'',
        description = ''Design review''\<rparr>]
       [''p'' \<mapsto> ''Alpha'']
     = Inr ([(2, 5, ''task:design''), (1, 35, ''Off-scheduled'')], 5)"
proof -
  have w: "in_window \<lparr>start_of_sprint = 1000, sprint_days = 2, total_sprint_time = 40\<rparr>
       \<lparr>entry_id = ''a'', start = 1000, duration = Some ''PT2H'', projectId = ''p'',
        description = ''Design review''\<rparr>"
    by (simp add: in_window_def end_of_sprint_def)
  have once: "process_entries \<lparr>start_of_sprint = 1000, sprint_days = 2, total_sprint_time = 40\<rparr>
       [\<lparr>Description = ''task:design'', Estimated_Hours = 5\<rparr>]
       [\<lparr>entry_id = ''a'', start = 1000, duration = Some ''PT2H'', projectId = ''p'',
        description = ''Design review''\<rparr>,
        \<lparr>entry_id = ''b'', start = 5000, duration = Some ''PT1H'', projectId = ''p'',
        description = ''Standup''\<rparr>]
       [''p'' \<mapsto> ''Alpha'']
     = Inr ([(2, 5, ''task:design''), (1, 35, ''Off-scheduled'')], 5)"
    by (simp add: engine_eval duration_eval string_eval)
  show ?thesis
    using w once
      duplicate_entry_once[where cfg = "\<lparr>start_of_sprint = 1000, sprint_days = 2, total_sprint_time = 40\<rparr>"
        and rows = "[\<lparr>Description = ''task:design'', Estimated_Hours = 5\<rparr>]"
        and projects = "[''p'' \<mapsto> ''Alpha'']" and xs = "[]" and zs = "[]"
        and e = "\<lparr>entry_id = ''a'', start = 1000, duration = Some ''PT2H'', projectId = ''p'',
        description = ''Design review''\<rparr>"
        and e' = "\<lparr>entry_id = ''a'', start = 1000, duration = Some ''PT2H'', projectId = ''p'',
        description = ''Design review''\<rparr>"
        and ys = "[\<lparr>entry_id = ''b'', start = 5000, duration = Some ''PT1H'', projectId = ''p'',
        description = ''Standup''\<rparr>]"]
    by simp
qed

section \<open>The shape of the results\<close>

















end
